theory Spec2Isabelle
  imports Main
begin

section \<open>The Clubspot backend (backend/server.js) as a state machine over a document store\<close>

text \<open>
  The server keeps three Mongoose collections (User, Group, Post). Every route handler is
  embedded as a function from the store to a response and a new store. Conventions:
  \<^item> a collection is the list of its documents in insertion order; an ObjectId is a natural
    number (below \<open>16 ^ 24\<close>), and a fresh one is drawn from a counter each time the source
    runs \<^verbatim>\<open>new Model(...)\<close>; \<open>toString\<close> is its lower-case hex string, and
    \<open>castObjectId\<close> reads a 24-digit hex string in either case and leaves every other
    string to the installed version of the library;
  \<^item> a request body field is absent (\<open>None\<close>: undefined or null) or holds a value of the
    type the schema gives it; JavaScript truthiness is written out (\<open>truthy\<close>). A field
    that names a document is given as the ObjectId it casts to; the \<^verbatim>\<open>groupId\<close> of Leave,
    which the source also compares as a string, is given as the string. A date is given
    as the string of the JSON body and cast when the Post is saved;
  \<^item> the user id of a token is the ObjectId the server signed, so that
    \<^verbatim>\<open>includes(userId)\<close> on a Mongoose array is list membership;
  \<^item> one request runs to completion before the next starts; a failure of the storage
    engine itself is not modelled, every other \<^verbatim>\<open>throw\<close> is (schema validation and
    casts, the unique index on username, reading a field of \<^verbatim>\<open>null\<close>, an unset signing
    secret);
  \<^item> bcrypt and jsonwebtoken are third-party libraries: they are modelled symbolically, as
    free constructors (a hash names the 72 bytes of the password that bcrypt reads, a
    signature names its key and payload);
  \<^item> what the process runs with is a record \<open>env\<close>: the signing secret, and two
    parameters of the model, the runtime's reading of date strings and the library's cast
    to ObjectId of strings that are not 24 hex digits;
  \<^item> the GET routes and logout read the store or the cookie only and are left out.
\<close>

subsection \<open>Schemas\<close>

type_synonym objid = nat

datatype pwhash = Bcrypt nat nat string
  \<comment> \<open>cost factor, salt, the first 72 bytes of the password\<close>

record user =
  u_id :: objid
  u_displayName :: string
  u_username :: string
  u_password :: pwhash
  u_groups :: "objid list"
  u_board_groups :: "objid list"
  u_site_admin :: bool

record group =
  g_id :: objid
  g_name :: string
  g_description :: string
  g_photoUrl :: "string option"
  g_posts :: "objid list"
  g_members :: "objid list"
  g_admins :: "objid list"

record post =
  p_id :: objid
  p_name :: string
  p_description :: "string option"
  p_group :: objid
  p_isEvent :: bool
  p_date :: "nat option"
  p_location :: "string option"
  p_photoUrl :: "string option"
  p_username :: string
  p_creationDate :: nat

record db =
  users :: "user list"
  groups :: "group list"
  posts :: "post list"
  next_id :: objid

definition db_empty :: db where
  "db_empty = \<lparr>users = [], groups = [], posts = [], next_id = 0\<rparr>"

subsection \<open>Collection operations\<close>

definition findById :: "('a \<Rightarrow> objid) \<Rightarrow> objid \<Rightarrow> 'a list \<Rightarrow> 'a option" where
  "findById idf i xs = find (\<lambda>x. idf x = i) xs"

text \<open>\<^verbatim>\<open>doc.save()\<close> on a document that was loaded before: the stored document with the same
  \<^verbatim>\<open>_id\<close> is replaced.\<close>

fun replaceOne :: "('a \<Rightarrow> objid) \<Rightarrow> 'a \<Rightarrow> 'a list \<Rightarrow> 'a list" where
  "replaceOne idf d [] = []"
| "replaceOne idf d (x # xs) = (if idf x = idf d then d # xs else x # replaceOne idf d xs)"

text \<open>\<^verbatim>\<open>User.findOne({ username })\<close>; an absent username matches no document.\<close>

definition findOne_username :: "string option \<Rightarrow> user list \<Rightarrow> user option" where
  "findOne_username un xs = find (\<lambda>u. Some (u_username u) = un) xs"

subsection \<open>JavaScript truthiness of body fields\<close>

fun truthy :: "string option \<Rightarrow> bool" where
  "truthy None = False"
| "truthy (Some s) = (s \<noteq> [])"

fun truthy_bool :: "bool option \<Rightarrow> bool" where
  "truthy_bool None = False"
| "truthy_bool (Some b) = b"

fun truthy_id :: "objid option \<Rightarrow> bool" where
  "truthy_id None = False"
| "truthy_id (Some i) = True"

subsection \<open>ObjectIds and their strings\<close>

text \<open>\<^verbatim>\<open>id.toString()\<close>: the 24 hex digits of the id, most significant first, in lower case.\<close>

definition hex_digit :: "nat \<Rightarrow> char" where
  "hex_digit d = ''0123456789abcdef'' ! (d mod 16)"

fun hex_digits :: "nat \<Rightarrow> nat \<Rightarrow> string" where
  "hex_digits 0 v = []"
| "hex_digits (Suc n) v = hex_digits n (v div 16) @ [hex_digit v]"

definition toString :: "objid \<Rightarrow> string" where
  "toString i = hex_digits 24 i"

text \<open>The cast of a string to an ObjectId, as \<^verbatim>\<open>findById\<close> does it: 24 hex digits, upper or
  lower case, are read as the id. What the cast makes of any other string is left to
  \<open>other\<close> (older versions of the library read a string of 12 characters as 12 bytes), with
  \<open>None\<close> where it throws.\<close>

definition hex_value :: "char \<Rightarrow> nat option" where
  "hex_value c =
     map_of (zip ''0123456789abcdefABCDEF''
       [0, 1, 2, 3, 4, 5, 6, 7, 8, 9, 10, 11, 12, 13, 14, 15, 10, 11, 12, 13, 14, 15]) c"

fun hex_number :: "string \<Rightarrow> nat \<Rightarrow> nat option" where
  "hex_number [] acc = Some acc"
| "hex_number (c # cs) acc =
     (case hex_value c of None \<Rightarrow> None | Some d \<Rightarrow> hex_number cs (16 * acc + d))"

definition castObjectId :: "(string \<Rightarrow> objid option) \<Rightarrow> string \<Rightarrow> objid option" where
  "castObjectId other str =
     (if length str = 24 \<and> hex_number str 0 \<noteq> None then hex_number str 0 else other str)"

subsection \<open>Dates\<close>

text \<open>The cast of a body field to the schema type Date when a Post is saved: an absent field
  and the empty string give no date; any other string is parsed, and the cast throws
  (\<open>Inl CastError\<close>) when the parser gives no date.\<close>

datatype cast_error = CastError

definition castDate :: "(string \<Rightarrow> nat option) \<Rightarrow> string option \<Rightarrow> cast_error + nat option" where
  "castDate parse v =
     (case v of
        None \<Rightarrow> Inr None
      | Some str \<Rightarrow>
          if str = [] then Inr None
          else (case parse str of None \<Rightarrow> Inl CastError | Some t \<Rightarrow> Inr (Some t)))"

subsection \<open>bcrypt and jsonwebtoken\<close>

text \<open>bcrypt reads the first 72 bytes of a password.\<close>

definition bcrypt_hash :: "string \<Rightarrow> nat \<Rightarrow> nat \<Rightarrow> pwhash" where
  "bcrypt_hash pw rounds salt = Bcrypt rounds salt (take 72 pw)"

fun bcrypt_compare :: "string \<Rightarrow> pwhash \<Rightarrow> bool" where
  "bcrypt_compare pw (Bcrypt rounds salt pw') = (take 72 pw = take 72 pw')"

record jwt_payload =
  jwt_id :: objid
  jwt_username :: string
  jwt_displayName :: string
  iat :: nat
  exp :: nat

datatype signature = HS256 string jwt_payload
  \<comment> \<open>key, signed payload\<close>

record token =
  tok_payload :: jwt_payload
  tok_sig :: signature

text \<open>\<^verbatim>\<open>jwt.sign(payload, secret, { expiresIn })\<close> at clock \<open>now\<close> (milliseconds): the library
  adds \<^verbatim>\<open>iat\<close> and \<^verbatim>\<open>exp\<close> in seconds, and throws (\<open>None\<close>) without a secret.\<close>

definition jwt_sign :: "objid \<Rightarrow> string \<Rightarrow> string \<Rightarrow> string option \<Rightarrow> nat \<Rightarrow> nat \<Rightarrow> token option" where
  "jwt_sign i un dn secret expiresIn now =
     (if \<not> truthy secret then None
      else case secret of
        None \<Rightarrow> None
      | Some k \<Rightarrow>
          let p = \<lparr>jwt_id = i, jwt_username = un, jwt_displayName = dn,
                   iat = now div 1000, exp = now div 1000 + expiresIn\<rparr>
          in Some \<lparr>tok_payload = p, tok_sig = HS256 k p\<rparr>)"

text \<open>\<^verbatim>\<open>jwt.verify(token, secret)\<close>: throws (\<open>None\<close>) without a secret, on a signature that is
  not the secret's signature of the payload, and once the clock has reached \<^verbatim>\<open>exp\<close>.\<close>

definition jwt_verify :: "token \<Rightarrow> string option \<Rightarrow> nat \<Rightarrow> jwt_payload option" where
  "jwt_verify t secret now =
     (if \<not> truthy secret then None
      else case secret of
        None \<Rightarrow> None
      | Some k \<Rightarrow>
          if tok_sig t \<noteq> HS256 k (tok_payload t) then None
          else if now div 1000 \<ge> exp (tok_payload t) then None
          else Some (tok_payload t))"

subsection \<open>The process environment\<close>

text \<open>\<^verbatim>\<open>process.env.JWT_SECRET\<close>; the way the JavaScript runtime reads a date string
  (\<^verbatim>\<open>new Date(...)\<close>, as the cast to Date applies it): the time value in milliseconds,
  \<open>None\<close> where the result is an invalid Date; and the library's cast to ObjectId of a
  string that is not 24 hex digits, \<open>None\<close> where it throws.\<close>

record env =
  JWT_SECRET :: "string option"
  Date_of_string :: "string \<Rightarrow> nat option"
  ObjectId_other :: "string \<Rightarrow> objid option"

subsection \<open>Requests and responses\<close>

datatype body =
    Message string
  | LoginOk string string
  | Identity objid string string
  | PostCreated string post
  | GroupCreated string group

record cookie =
  c_token :: token
  c_httpOnly :: bool
  c_maxAge :: nat

record response =
  status :: nat
  body :: body
  set_cookie :: "cookie option"

definition send :: "nat \<Rightarrow> body \<Rightarrow> response" where
  "send st b = \<lparr>status = st, body = b, set_cookie = None\<rparr>"

record register_body =
  rb_username :: "string option"
  rb_displayName :: "string option"
  rb_password :: "string option"

record login_body =
  lb_username :: "string option"
  lb_password :: "string option"

record post_body =
  pb_group :: "objid option"
  pb_postName :: "string option"
  pb_description :: "string option"
  pb_isEvent :: "bool option"
  pb_date :: "string option"
  pb_location :: "string option"
  pb_photoUrl :: "string option"


record groupId_body =
  jb_groupId :: "objid option"

record leave_body =
  lv_groupId :: "string option"

record create_group_body =
  cb_name :: "string option"
  cb_description :: "string option"
  cb_photoUrl :: "string option"

subsection \<open>Middleware: authenticate\<close>

definition authenticate :: "env \<Rightarrow> nat \<Rightarrow> token option \<Rightarrow> response + jwt_payload" where
  "authenticate env now authToken =
     (case authToken of
        None \<Rightarrow> Inl (send 401 (Message ''Unauthorized.''))
      | Some t \<Rightarrow>
          (case jwt_verify t (JWT_SECRET env) now of
             None \<Rightarrow> Inl (send 401 (Message ''Invalid token.''))
           | Some decoded \<Rightarrow> Inr decoded))"

subsection \<open>POST /api/posts (first registration, behind authenticate)\<close>

definition create_post ::
  "env \<Rightarrow> nat \<Rightarrow> token option \<Rightarrow> post_body \<Rightarrow> db \<Rightarrow> response \<times> db" where
  "create_post env now authToken b s =
     (case authenticate env now authToken of
        Inl r \<Rightarrow> (r, s)
      | Inr decoded \<Rightarrow>
          if \<not> truthy_id (pb_group b) \<or> \<not> truthy (pb_postName b) \<or>
             (truthy_bool (pb_isEvent b) \<and> (\<not> truthy (pb_date b) \<or> \<not> truthy (pb_location b)))
          then (send 400 (Message ''Required fields are missing.''), s)
          else
            (case (pb_group b, pb_postName b) of
               (Some gid, Some postName) \<Rightarrow>
                 (case findById g_id gid (groups s) of
                    None \<Rightarrow> (send 404 (Message ''Group not found.''), s)
                  | Some selectedGroup \<Rightarrow>
                      if jwt_id decoded \<notin> set (g_admins selectedGroup)
                      then (send 403 (Message ''You must be an admin to post in this group.''), s)
                      else
                        let s0 = s\<lparr>next_id := Suc (next_id s)\<rparr> in
                        (case pb_isEvent b of
                           None \<Rightarrow> (send 500 (Message ''Error creating post.''), s0)
                         | Some isEvent \<Rightarrow>
                             if jwt_username decoded = []
                             then (send 500 (Message ''Error creating post.''), s0)
                             else
                               (case castDate (Date_of_string env) (pb_date b) of
                                  Inl err \<Rightarrow> (send 500 (Message ''Error creating post.''), s0)
                                | Inr date \<Rightarrow>
                                    let newPost = \<lparr>p_id = next_id s, p_name = postName,
                                          p_description = pb_description b, p_group = gid,
                                          p_isEvent = isEvent, p_date = date,
                                          p_location = pb_location b,
                                          p_photoUrl = pb_photoUrl b,
                                          p_username = jwt_username decoded,
                                          p_creationDate = now\<rparr>;
                                        s1 = s0\<lparr>posts := posts s0 @ [newPost]\<rparr>;
                                        selectedGroup' = selectedGroup
                                          \<lparr>g_posts := g_posts selectedGroup @ [p_id newPost]\<rparr>;
                                        s2 = s1\<lparr>groups :=
                                               replaceOne g_id selectedGroup' (groups s1)\<rparr>
                                    in (send 201
                                          (PostCreated ''Post created successfully.'' newPost),
                                        s2))))
             | _ \<Rightarrow> (send 400 (Message ''Required fields are missing.''), s)))"

subsection \<open>POST /api/auth/register\<close>

definition register :: "nat \<Rightarrow> register_body \<Rightarrow> db \<Rightarrow> response \<times> db" where
  "register salt b s =
     (if \<not> truthy (rb_username b) \<or> \<not> truthy (rb_displayName b) \<or> \<not> truthy (rb_password b)
      then (send 400 (Message ''All fields are required.''), s)
      else
        (case (rb_username b, rb_displayName b, rb_password b) of
           (Some username, Some displayName, Some password) \<Rightarrow>
             let hashedPassword = bcrypt_hash password 10 salt;
                 newUser = \<lparr>u_id = next_id s, u_displayName = displayName,
                     u_username = username, u_password = hashedPassword,
                     u_groups = [], u_board_groups = [], u_site_admin = False\<rparr>;
                 s0 = s\<lparr>next_id := Suc (next_id s)\<rparr>
             in if username \<in> set (map u_username (users s))
                then (send 400 (Message ''Username already exists.''), s0)
                else (send 201 (Message ''User registered successfully.''),
                      s0\<lparr>users := users s0 @ [newUser]\<rparr>)
         | _ \<Rightarrow> (send 400 (Message ''All fields are required.''), s)))"

subsection \<open>POST /api/auth/login\<close>

definition login :: "env \<Rightarrow> nat \<Rightarrow> login_body \<Rightarrow> db \<Rightarrow> response \<times> db" where
  "login env now b s =
     (case findOne_username (lb_username b) (users s) of
        None \<Rightarrow> (send 404 (Message ''User not found.''), s)
      | Some user \<Rightarrow>
          (case lb_password b of
             None \<Rightarrow> (send 500 (Message ''Error logging in.''), s)
           | Some password \<Rightarrow>
               if \<not> bcrypt_compare password (u_password user)
               then (send 401 (Message ''Invalid credentials.''), s)
               else
                 (case jwt_sign (u_id user) (u_username user) (u_displayName user)
                         (JWT_SECRET env) 86400 now of
                    None \<Rightarrow> (send 500 (Message ''Error logging in.''), s)
                  | Some t \<Rightarrow>
                      (\<lparr>status = 200,
                        body = LoginOk ''Login successful.'' (u_displayName user),
                        set_cookie = Some \<lparr>c_token = t, c_httpOnly = True,
                                           c_maxAge = 86400000\<rparr>\<rparr>, s))))"

subsection \<open>POST /api/auth/verify\<close>

definition verify :: "env \<Rightarrow> nat \<Rightarrow> token option \<Rightarrow> response" where
  "verify env now authToken =
     (case authToken of
        None \<Rightarrow> send 401 (Message ''Unauthorized: No token provided.'')
      | Some t \<Rightarrow>
          (case jwt_verify t (JWT_SECRET env) now of
             None \<Rightarrow> send 401 (Message ''Invalid token.'')
           | Some decoded \<Rightarrow>
               send 200 (Identity (jwt_id decoded) (jwt_username decoded)
                           (jwt_displayName decoded))))"

subsection \<open>POST /api/posts (second registration, no middleware)\<close>


subsection \<open>POST /api/groups/leave\<close>

text \<open>\<^verbatim>\<open>Group.findById(groupId)\<close> casts the string of the body to an ObjectId (and rejects, 500,
  when the cast throws); the filter on the caller's groups compares the string of each
  stored id with the string of the body.\<close>

definition leave ::
  "env \<Rightarrow> nat \<Rightarrow> token option \<Rightarrow> leave_body \<Rightarrow> db \<Rightarrow> response \<times> db" where
  "leave env now authToken b s =
     (case authenticate env now authToken of
        Inl r \<Rightarrow> (r, s)
      | Inr decoded \<Rightarrow>
          if \<not> truthy (lv_groupId b)
          then (send 400 (Message ''Group ID is required.''), s)
          else
            (case lv_groupId b of
               None \<Rightarrow> (send 400 (Message ''Group ID is required.''), s)
             | Some groupId \<Rightarrow>
                 let userId = jwt_id decoded in
                 (case castObjectId (ObjectId_other env) groupId of
                    None \<Rightarrow> (send 500 (Message ''Error leaving group.''), s)
                  | Some gid \<Rightarrow>
                      (case findById g_id gid (groups s) of
                         None \<Rightarrow> (send 404 (Message ''Group not found.''), s)
                       | Some g \<Rightarrow>
                           if userId \<notin> set (g_members g)
                           then (send 400 (Message ''User is not a member of this group.''), s)
                           else
                             let g' = g\<lparr>g_members :=
                                        filter (\<lambda>memberId. memberId \<noteq> userId) (g_members g)\<rparr>;
                                 s1 = s\<lparr>groups := replaceOne g_id g' (groups s)\<rparr>
                             in (case findById u_id userId (users s1) of
                                   None \<Rightarrow> (send 500 (Message ''Error leaving group.''), s1)
                                 | Some u \<Rightarrow>
                                     let u' = u\<lparr>u_groups :=
                                                filter (\<lambda>gId. toString gId \<noteq> groupId)
                                                  (u_groups u)\<rparr>;
                                         s2 = s1\<lparr>users := replaceOne u_id u' (users s1)\<rparr>
                                     in (send 200
                                           (Message ''User left the group successfully.''),
                                         s2))))))"

subsection \<open>POST /api/groups/join\<close>

definition join ::
  "env \<Rightarrow> nat \<Rightarrow> token option \<Rightarrow> groupId_body \<Rightarrow> db \<Rightarrow> response \<times> db" where
  "join env now authToken b s =
     (case authenticate env now authToken of
        Inl r \<Rightarrow> (r, s)
      | Inr decoded \<Rightarrow>
          (case jb_groupId b of
             None \<Rightarrow> (send 400 (Message ''Group ID is required.''), s)
           | Some groupId \<Rightarrow>
               let userId = jwt_id decoded in
               (case findById g_id groupId (groups s) of
                  None \<Rightarrow> (send 404 (Message ''Group not found.''), s)
                | Some g \<Rightarrow>
                    if userId \<in> set (g_members g)
                    then (send 400 (Message ''User is already a member of this group.''), s)
                    else
                      let g' = g\<lparr>g_members := g_members g @ [userId]\<rparr>;
                          s1 = s\<lparr>groups := replaceOne g_id g' (groups s)\<rparr>
                      in (case findById u_id userId (users s1) of
                            None \<Rightarrow> (send 500 (Message ''Error joining group.''), s1)
                          | Some u \<Rightarrow>
                              let u' = u\<lparr>u_groups := u_groups u @ [groupId]\<rparr>;
                                  s2 = s1\<lparr>users := replaceOne u_id u' (users s1)\<rparr>
                              in (send 200 (Message ''User joined the group successfully.''), s2)))))"

subsection \<open>POST /api/groups/create\<close>

definition create_group ::
  "env \<Rightarrow> nat \<Rightarrow> token option \<Rightarrow> create_group_body \<Rightarrow> db \<Rightarrow> response \<times> db" where
  "create_group env now authToken b s =
     (case authenticate env now authToken of
        Inl r \<Rightarrow> (r, s)
      | Inr decoded \<Rightarrow>
          if \<not> truthy (cb_name b) \<or> \<not> truthy (cb_description b)
          then (send 400 (Message ''Name and description are required.''), s)
          else
            (case (cb_name b, cb_description b) of
               (Some name, Some description) \<Rightarrow>
                 let userId = jwt_id decoded;
                     newGroup = \<lparr>g_id = next_id s, g_name = name, g_description = description,
                         g_photoUrl = cb_photoUrl b, g_posts = [],
                         g_members = [userId], g_admins = [userId]\<rparr>;
                     s1 = s\<lparr>groups := groups s @ [newGroup], next_id := Suc (next_id s)\<rparr>
                 in (case findById u_id userId (users s1) of
                       None \<Rightarrow> (send 500 (Message ''Error creating group.''), s1)
                     | Some u \<Rightarrow>
                         let u' = u\<lparr>u_groups := u_groups u @ [g_id newGroup],
                                    u_board_groups := u_board_groups u @ [g_id newGroup]\<rparr>;
                             s2 = s1\<lparr>users := replaceOne u_id u' (users s1)\<rparr>
                         in (send 201 (GroupCreated ''Group created successfully.'' newGroup), s2))
             | _ \<Rightarrow> (send 400 (Message ''Name and description are required.''), s)))"

subsection \<open>The router and runs of the server\<close>

text \<open>The routes that write to the store, or issue or check a token. Express hands
  \<^verbatim>\<open>POST /api/posts\<close> to the first handler registered for it; that handler always answers, so
  \<open>create_post_legacy\<close> is never reached through the router.\<close>

datatype request =
    Register nat register_body
  | Login login_body
  | Verify
  | CreatePost post_body
  | Leave leave_body
  | Join groupId_body
  | CreateGroup create_group_body

record http =
  h_now :: nat
  h_authToken :: "token option"
  h_request :: request

fun route :: "env \<Rightarrow> nat \<Rightarrow> token option \<Rightarrow> request \<Rightarrow> db \<Rightarrow> response \<times> db" where
  "route k now c (Register salt b) s = register salt b s"
| "route k now c (Login b) s = login k now b s"
| "route k now c Verify s = (verify k now c, s)"
| "route k now c (CreatePost b) s = create_post k now c b s"
| "route k now c (Leave b) s = leave k now c b s"
| "route k now c (Join b) s = join k now c b s"
| "route k now c (CreateGroup b) s = create_group k now c b s"

definition handle :: "env \<Rightarrow> http \<Rightarrow> db \<Rightarrow> response \<times> db" where
  "handle k h s = route k (h_now h) (h_authToken h) (h_request h) s"

fun run :: "env \<Rightarrow> http list \<Rightarrow> db \<Rightarrow> db" where
  "run k [] s = s"
| "run k (h # hs) s = run k hs (snd (handle k h s))"

subsection \<open>Properties of a store\<close>

text \<open>Every admin of every group is one of its members.\<close>

definition admins_are_members :: "db \<Rightarrow> bool" where
  "admins_are_members s =
     (\<forall>g \<in> set (groups s). \<forall>a \<in> set (g_admins g). a \<in> set (g_members g))"

text \<open>The request is a Leave that takes an admin of the target group out of its members.\<close>

definition admin_leaves :: "env \<Rightarrow> http \<Rightarrow> db \<Rightarrow> bool" where
  "admin_leaves k h s =
     (case h_request h of
        Leave b \<Rightarrow>
          (case (authenticate k (h_now h) (h_authToken h), lv_groupId b) of
             (Inr d, Some groupId) \<Rightarrow>
               groupId \<noteq> [] \<and>
               (case castObjectId (ObjectId_other k) groupId of
                  Some gid \<Rightarrow>
                    (case findById g_id gid (groups s) of
                       Some g \<Rightarrow> jwt_id d \<in> set (g_admins g) \<and> jwt_id d \<in> set (g_members g)
                     | None \<Rightarrow> False)
                | None \<Rightarrow> False)
           | _ \<Rightarrow> False)
      | _ \<Rightarrow> False)"

fun no_admin_leaves :: "env \<Rightarrow> http list \<Rightarrow> db \<Rightarrow> bool" where
  "no_admin_leaves k [] s = True"
| "no_admin_leaves k (h # hs) s =
     (\<not> admin_leaves k h s \<and> no_admin_leaves k hs (snd (handle k h s)))"

text \<open>The number of stored users with a given username.\<close>

definition count_username :: "string \<Rightarrow> db \<Rightarrow> nat" where
  "count_username n s = length (filter (\<lambda>u. u_username u = n) (users s))"

subsection \<open>A sample run\<close>

text \<open>Alice and Bob register and log in, Alice creates the Book Club, Bob joins it.\<close>

text \<open>The sample environment: the secret, a reading of dates that knows one date string, and
  a cast to ObjectId that throws on every string that is not 24 hex digits.\<close>

definition ex_env :: env where
  "ex_env = \<lparr>JWT_SECRET = Some ''secret'',
             Date_of_string = (\<lambda>str. if str = ''2025-01-01'' then Some 1735689600000 else None),
             ObjectId_other = (\<lambda>str. None)\<rparr>"

definition ex_token :: "objid \<Rightarrow> string \<Rightarrow> string \<Rightarrow> nat \<Rightarrow> token" where
  "ex_token i un dn t =
     \<lparr>tok_payload = \<lparr>jwt_id = i, jwt_username = un, jwt_displayName = dn,
                      iat = t, exp = t + 86400\<rparr>,
      tok_sig = HS256 ''secret'' \<lparr>jwt_id = i, jwt_username = un, jwt_displayName = dn,
                                  iat = t, exp = t + 86400\<rparr>\<rparr>"

definition alice_token :: token where
  "alice_token = ex_token 0 ''alice'' ''Alice'' 3"

definition bob_token :: token where
  "bob_token = ex_token 1 ''bob'' ''Bob'' 4"

definition ex_alice :: register_body where
  "ex_alice = \<lparr>rb_username = Some ''alice'', rb_displayName = Some ''Alice'',
               rb_password = Some ''pw''\<rparr>"

definition ex_bob :: register_body where
  "ex_bob = \<lparr>rb_username = Some ''bob'', rb_displayName = Some ''Bob'',
             rb_password = Some ''hunter2''\<rparr>"

definition ex_alice_login :: login_body where
  "ex_alice_login = \<lparr>lb_username = Some ''alice'', lb_password = Some ''pw''\<rparr>"

definition ex_bob_login :: login_body where
  "ex_bob_login = \<lparr>lb_username = Some ''bob'', lb_password = Some ''hunter2''\<rparr>"

definition ex_book_club :: create_group_body where
  "ex_book_club = \<lparr>cb_name = Some ''Book Club'', cb_description = Some ''Readers'',
                   cb_photoUrl = None\<rparr>"

definition ex_requests :: "http list" where
  "ex_requests =
     [\<lparr>h_now = 1000, h_authToken = None, h_request = Register 11 ex_alice\<rparr>,
      \<lparr>h_now = 2000, h_authToken = None, h_request = Register 12 ex_bob\<rparr>,
      \<lparr>h_now = 3000, h_authToken = None, h_request = Login ex_alice_login\<rparr>,
      \<lparr>h_now = 4000, h_authToken = None, h_request = Login ex_bob_login\<rparr>,
      \<lparr>h_now = 5000, h_authToken = Some alice_token, h_request = CreateGroup ex_book_club\<rparr>,
      \<lparr>h_now = 6000, h_authToken = Some bob_token,
       h_request = Join \<lparr>jb_groupId = Some 2\<rparr>\<rparr>]"

definition ex_db :: db where
  "ex_db = run ex_env ex_requests db_empty"

definition ex_alice_doc :: user where
  "ex_alice_doc = \<lparr>u_id = 0, u_displayName = ''Alice'', u_username = ''alice'',
       u_password = Bcrypt 10 11 ''pw'', u_groups = [2], u_board_groups = [2],
       u_site_admin = False\<rparr>"

definition ex_bob_doc :: user where
  "ex_bob_doc = \<lparr>u_id = 1, u_displayName = ''Bob'', u_username = ''bob'',
       u_password = Bcrypt 10 12 ''hunter2'', u_groups = [2], u_board_groups = [],
       u_site_admin = False\<rparr>"

definition ex_book_club_doc :: group where
  "ex_book_club_doc = \<lparr>g_id = 2, g_name = ''Book Club'', g_description = ''Readers'',
       g_photoUrl = None, g_posts = [], g_members = [0, 1], g_admins = [0]\<rparr>"

definition ex_alice_leaves :: http where
  "ex_alice_leaves = \<lparr>h_now = 7000, h_authToken = Some alice_token,
       h_request = Leave \<lparr>lv_groupId = Some ''000000000000000000000002''\<rparr>\<rparr>"

definition ex_bob_leaves :: http where
  "ex_bob_leaves = \<lparr>h_now = 7000, h_authToken = Some bob_token,
       h_request = Leave \<lparr>lv_groupId = Some ''000000000000000000000002''\<rparr>\<rparr>"

definition ex_meetup :: post_body where
  "ex_meetup = \<lparr>pb_group = Some 2, pb_postName = Some ''Meetup'', pb_description = None,
       pb_isEvent = Some True, pb_date = Some ''2025-01-01'', pb_location = Some ''Park'',
       pb_photoUrl = None\<rparr>"


text \<open>A second run, in which the group gets an id with a hex letter: Alice registers, nine
  more registrations of her username fail (each draws an id), and she creates the Book
  Club, which gets id 10, in hex \<open>a\<close>.\<close>

definition ex_again :: http where
  "ex_again = \<lparr>h_now = 1500, h_authToken = None, h_request = Register 13 ex_alice\<rparr>"

definition ex_requests_a :: "http list" where
  "ex_requests_a =
     [\<lparr>h_now = 1000, h_authToken = None, h_request = Register 11 ex_alice\<rparr>,
      ex_again, ex_again, ex_again, ex_again, ex_again, ex_again, ex_again, ex_again, ex_again,
      \<lparr>h_now = 3000, h_authToken = None, h_request = Login ex_alice_login\<rparr>,
      \<lparr>h_now = 5000, h_authToken = Some alice_token, h_request = CreateGroup ex_book_club\<rparr>]"

definition ex_db_a :: db where
  "ex_db_a = run ex_env ex_requests_a db_empty"

definition ex_alice_doc_a :: user where
  "ex_alice_doc_a = \<lparr>u_id = 0, u_displayName = ''Alice'', u_username = ''alice'',
       u_password = Bcrypt 10 11 ''pw'', u_groups = [10], u_board_groups = [10],
       u_site_admin = False\<rparr>"

definition ex_book_club_doc_a :: group where
  "ex_book_club_doc_a = \<lparr>g_id = 10, g_name = ''Book Club'', g_description = ''Readers'',
       g_photoUrl = None, g_posts = [], g_members = [0], g_admins = [0]\<rparr>"

section \<open>Lemmas on the collections, the tokens and the sample run\<close>

lemma findById_Some_id: "findById idf i xs = Some x \<Longrightarrow> idf x = i"
  by (induction xs) (auto simp: findById_def split: if_splits)

lemma findById_Some_mem: "findById idf i xs = Some x \<Longrightarrow> x \<in> set xs"
  by (induction xs) (auto simp: findById_def split: if_splits)

lemma findById_replaceOne_same:
  "findById idf (idf d) xs = Some x \<Longrightarrow> findById idf (idf d) (replaceOne idf d xs) = Some d"
  by (induction xs) (auto simp: findById_def split: if_splits)

lemma set_replaceOne: "set (replaceOne idf d xs) \<subseteq> insert d (set xs)"
  by (induction xs) auto

lemma map_replaceOne:
  "findById idf (idf d) xs = Some x \<Longrightarrow> f d = f x \<Longrightarrow> map f (replaceOne idf d xs) = map f xs"
  by (induction xs) (auto simp: findById_def split: if_splits)

lemma run_append: "run k (hs @ hs') s = run k hs' (run k hs s)"
  by (induction hs arbitrary: s) simp_all

lemma no_admin_leaves_append:
  "no_admin_leaves k (hs @ hs') s =
     (no_admin_leaves k hs s \<and> no_admin_leaves k hs' (run k hs s))"
  by (induction hs arbitrary: s) simp_all

lemma jwt_verify_sign:
  assumes "jwt_sign i un dn k e now = Some t"
  shows "jwt_verify t k now' =
           (if now' div 1000 < exp (tok_payload t) then Some (tok_payload t) else None)"
  using assms by (cases k) (auto simp: jwt_sign_def jwt_verify_def Let_def split: if_splits)

lemma jwt_sign_payload:
  assumes "jwt_sign i un dn k e now = Some t"
  shows "tok_payload t = \<lparr>jwt_id = i, jwt_username = un, jwt_displayName = dn,
            iat = now div 1000, exp = now div 1000 + e\<rparr>"
  using assms by (cases k) (auto simp: jwt_sign_def Let_def split: if_splits)

lemma jwt_verify_tampered:
  assumes "jwt_sign i un dn k e now = Some t"
      and "t' \<noteq> t" and "tok_payload t' = tok_payload t \<or> tok_sig t' = tok_sig t"
  shows "jwt_verify t' k now' = None"
proof (cases k)
  case None
  then show ?thesis by (simp add: jwt_verify_def)
next
  case (Some key)
  with assms(1) have sig: "tok_sig t = HS256 key (tok_payload t)"
    by (auto simp: jwt_sign_def Let_def split: if_splits)
  from assms(2) have "tok_payload t' \<noteq> tok_payload t \<or> tok_sig t' \<noteq> tok_sig t"
    by (cases t, cases t') auto
  with assms(3) sig have "tok_sig t' \<noteq> HS256 key (tok_payload t')"
    by auto
  with Some show ?thesis by (simp add: jwt_verify_def)
qed

lemma jwt_sign_sig:
  assumes "jwt_sign i un dn k e now = Some t"
  shows "\<exists>key. k = Some key \<and> tok_sig t = HS256 key (tok_payload t)"
  using assms by (cases k) (auto simp: jwt_sign_def Let_def split: if_splits)

lemma jwt_verify_expired:
  "exp (tok_payload t') \<le> now' div 1000 \<Longrightarrow> jwt_verify t' k now' = None"
  by (cases k) (simp_all add: jwt_verify_def)

lemma jwt_verify_bad_signature:
  "k = Some key \<Longrightarrow> tok_sig t' \<noteq> HS256 key (tok_payload t') \<Longrightarrow> jwt_verify t' k now' = None"
  by (simp add: jwt_verify_def)

lemma toString_2: "toString 2 = ''000000000000000000000002''"
  by code_simp

lemma toString_10: "toString 10 = ''00000000000000000000000a''"
  by code_simp

lemma hex_number_2: "hex_number ''000000000000000000000002'' 0 = Some 2"
  by code_simp

lemma hex_number_a: "hex_number ''00000000000000000000000a'' 0 = Some 10"
  by code_simp

lemma hex_number_A: "hex_number ''00000000000000000000000A'' 0 = Some 10"
  by code_simp

lemma castObjectId_2: "castObjectId other ''000000000000000000000002'' = Some 2"
  unfolding castObjectId_def hex_number_2 by simp

lemma castObjectId_a: "castObjectId other ''00000000000000000000000a'' = Some 10"
  unfolding castObjectId_def hex_number_a by simp

lemma castObjectId_A: "castObjectId other ''00000000000000000000000A'' = Some 10"
  unfolding castObjectId_def hex_number_A by simp

lemma authenticate_alice:
  "t < 86403000 \<Longrightarrow> authenticate ex_env t (Some alice_token) = Inr (tok_payload alice_token)"
  by (simp add: authenticate_def jwt_verify_def ex_env_def alice_token_def ex_token_def)

lemma authenticate_bob:
  "t < 86404000 \<Longrightarrow> authenticate ex_env t (Some bob_token) = Inr (tok_payload bob_token)"
  by (simp add: authenticate_def jwt_verify_def ex_env_def bob_token_def ex_token_def)

lemma login_state: "snd (login k now b s) = s"
  by (simp add: login_def split: option.split)

lemma ex_db_eq:
  "ex_db = \<lparr>users = [ex_alice_doc, ex_bob_doc], groups = [ex_book_club_doc], posts = [],
            next_id = 3\<rparr>"
  by (simp add: ex_db_def ex_requests_def handle_def db_empty_def register_def login_state
      ex_alice_def ex_bob_def bcrypt_hash_def create_group_def join_def ex_book_club_def
      findById_def authenticate_def jwt_verify_def ex_env_def alice_token_def bob_token_def
      ex_token_def ex_alice_doc_def ex_bob_doc_def ex_book_club_doc_def Let_def)

lemma ex_db_a_eq:
  "ex_db_a = \<lparr>users = [ex_alice_doc_a], groups = [ex_book_club_doc_a], posts = [],
              next_id = 11\<rparr>"
  by (simp add: ex_db_a_def ex_requests_a_def ex_again_def handle_def db_empty_def register_def
      login_state ex_alice_def bcrypt_hash_def create_group_def ex_book_club_def findById_def
      authenticate_def jwt_verify_def ex_env_def alice_token_def ex_token_def
      ex_alice_doc_a_def ex_book_club_doc_a_def Let_def)

section \<open>Posting\<close>

text \<open>
  C2. An authenticated post-creation request is checked in this order: required fields
  (400), existence of the group (404), the caller being one of the group's admins (403).
  A caller who is not an admin of the existing target group gets 403 and the store is left
  as it was: no Post is created and the group's posts list does not change.
\<close>

theorem create_post_check_order:
  assumes "authenticate k now c = Inr d"
  shows "(\<not> truthy_id (pb_group b) \<or> \<not> truthy (pb_postName b) \<or>
           (truthy_bool (pb_isEvent b) \<and> (\<not> truthy (pb_date b) \<or> \<not> truthy (pb_location b)))
          \<longrightarrow> create_post k now c b s = (send 400 (Message ''Required fields are missing.''), s))
       \<and> (pb_group b = Some gid \<and> truthy (pb_postName b) \<and>
           (truthy_bool (pb_isEvent b) \<longrightarrow> truthy (pb_date b) \<and> truthy (pb_location b)) \<and>
           findById g_id gid (groups s) = None
          \<longrightarrow> create_post k now c b s = (send 404 (Message ''Group not found.''), s))
       \<and> (pb_group b = Some gid \<and> truthy (pb_postName b) \<and>
           (truthy_bool (pb_isEvent b) \<longrightarrow> truthy (pb_date b) \<and> truthy (pb_location b)) \<and>
           findById g_id gid (groups s) = Some g \<and> jwt_id d \<notin> set (g_admins g)
          \<longrightarrow> create_post k now c b s =
                (send 403 (Message ''You must be an admin to post in this group.''), s))"
  using assms by (cases "pb_postName b") (auto simp add: create_post_def)

theorem create_post_check_order_witness:
  "create_post ex_env 7000 (Some bob_token) (ex_meetup\<lparr>pb_postName := None\<rparr>) ex_db =
     (send 400 (Message ''Required fields are missing.''), ex_db)
 \<and> create_post ex_env 7000 (Some bob_token) (ex_meetup\<lparr>pb_group := Some 9\<rparr>) ex_db =
     (send 404 (Message ''Group not found.''), ex_db)
 \<and> jwt_id (tok_payload bob_token) \<notin> set (g_admins ex_book_club_doc)
 \<and> create_post ex_env 7000 (Some bob_token) ex_meetup ex_db =
     (send 403 (Message ''You must be an admin to post in this group.''), ex_db)"
proof -
  have a: "authenticate ex_env 7000 (Some bob_token) = Inr (tok_payload bob_token)"
    by (simp add: authenticate_bob)
  have g9: "findById g_id 9 (groups ex_db) = None"
    by (simp add: ex_db_eq findById_def ex_book_club_doc_def)
  have g2: "findById g_id 2 (groups ex_db) = Some ex_book_club_doc"
    by (simp add: ex_db_eq findById_def ex_book_club_doc_def)
  have na: "jwt_id (tok_payload bob_token) \<notin> set (g_admins ex_book_club_doc)"
    by (simp add: bob_token_def ex_token_def ex_book_club_doc_def)
  show ?thesis
    using create_post_check_order [OF a, where b = "ex_meetup\<lparr>pb_postName := None\<rparr>" and s = ex_db]
      create_post_check_order [OF a, where b = "ex_meetup\<lparr>pb_group := Some 9\<rparr>" and gid = 9 and s = ex_db]
      create_post_check_order [OF a, where b = ex_meetup and gid = 2 and s = ex_db
        and g = ex_book_club_doc]
      g9 g2 na
    by (simp add: ex_meetup_def)
qed

text \<open>
  C8. An authenticated post-creation request with isEvent true and a missing (absent or
  empty) date or location gets 400 and leaves the store as it was, whoever the caller is.
\<close>

theorem create_post_event_needs_date_location:
  assumes "authenticate k now c = Inr d"
      and "pb_isEvent b = Some True"
      and "\<not> truthy (pb_date b) \<or> \<not> truthy (pb_location b)"
  shows "create_post k now c b s = (send 400 (Message ''Required fields are missing.''), s)"
  using assms by (auto simp add: create_post_def)

theorem create_post_event_needs_date_location_witness:
  "jwt_id (tok_payload alice_token) \<in> set (g_admins ex_book_club_doc)
 \<and> create_post ex_env 7000 (Some alice_token) (ex_meetup\<lparr>pb_date := None\<rparr>) ex_db =
     (send 400 (Message ''Required fields are missing.''), ex_db)"
proof -
  have a: "authenticate ex_env 7000 (Some alice_token) = Inr (tok_payload alice_token)"
    by (simp add: authenticate_alice)
  have e: "pb_isEvent (ex_meetup\<lparr>pb_date := None\<rparr>) = Some True"
    by (simp add: ex_meetup_def)
  have m: "\<not> truthy (pb_date (ex_meetup\<lparr>pb_date := None\<rparr>)) \<or>
           \<not> truthy (pb_location (ex_meetup\<lparr>pb_date := None\<rparr>))"
    by simp
  have "jwt_id (tok_payload alice_token) \<in> set (g_admins ex_book_club_doc)"
    by (simp add: alice_token_def ex_token_def ex_book_club_doc_def)
  then show ?thesis
    using create_post_event_needs_date_location [OF a e m, of ex_db] by simp
qed




section \<open>Membership\<close>

text \<open>
  C3. A Join by an authenticated caller who is already in the members list of the target
  group gets 400 "User is already a member of this group." and leaves the store as it was,
  so neither the Group record nor the caller's User record changes.
\<close>

theorem join_already_member:
  assumes "authenticate k now c = Inr d"
      and "jb_groupId b = Some groupId"
      and "findById g_id groupId (groups s) = Some g"
      and "jwt_id d \<in> set (g_members g)"
  shows "join k now c b s = (send 400 (Message ''User is already a member of this group.''), s)"
  using assms by (simp add: join_def)

theorem join_already_member_witness:
  "findById g_id 2 (groups ex_db) = Some ex_book_club_doc
 \<and> jwt_id (tok_payload bob_token) \<in> set (g_members ex_book_club_doc)
 \<and> join ex_env 7000 (Some bob_token) \<lparr>jb_groupId = Some 2\<rparr> ex_db =
     (send 400 (Message ''User is already a member of this group.''), ex_db)"
proof -
  have a: "authenticate ex_env 7000 (Some bob_token) = Inr (tok_payload bob_token)"
    by (simp add: authenticate_bob)
  have b: "jb_groupId \<lparr>jb_groupId = Some 2\<rparr> = Some 2"
    by simp
  have g: "findById g_id 2 (groups ex_db) = Some ex_book_club_doc"
    by (simp add: ex_db_eq findById_def ex_book_club_doc_def)
  have m: "jwt_id (tok_payload bob_token) \<in> set (g_members ex_book_club_doc)"
    by (simp add: bob_token_def ex_token_def ex_book_club_doc_def)
  show ?thesis
    using join_already_member [OF a b g m] g m by simp
qed

section \<open>Authentication\<close>

text \<open>
  C5, as stated: a failed login with an unknown username and a failed login with a known
  username and a wrong password get the same response. The handler answers the first with
  404 "User not found." and the second with 401 "Invalid credentials.": in the sample store
  the unknown name carol and the known name alice with a wrong password are told apart.
\<close>

theorem login_failures_distinguishable:
  "findOne_username (Some ''carol'') (users ex_db) = None
 \<and> findOne_username (Some ''alice'') (users ex_db) = Some ex_alice_doc
 \<and> \<not> bcrypt_compare ''wrong'' (u_password ex_alice_doc)
 \<and> fst (login ex_env 7000 \<lparr>lb_username = Some ''carol'', lb_password = Some ''wrong''\<rparr> ex_db)
   \<noteq> fst (login ex_env 7000 \<lparr>lb_username = Some ''alice'', lb_password = Some ''wrong''\<rparr> ex_db)"
  by (simp add: login_def findOne_username_def ex_db_eq ex_alice_doc_def ex_bob_doc_def send_def)

text \<open>
  C5, amended. A login with a username that no stored user has gets 404 "User not found.";
  a login with a stored username and a supplied password that does not match gets 401
  "Invalid credentials.". Each of the two responses is the same for every such attempt
  (it carries nothing of the stored user or of the password tried), and the store is left
  as it was.
\<close>

theorem login_failure_responses:
  "(findOne_username (lb_username b) (users s) = None \<longrightarrow>
      login k now b s = (send 404 (Message ''User not found.''), s))
 \<and> (findOne_username (lb_username b) (users s) = Some u \<and> lb_password b = Some pw \<and>
     \<not> bcrypt_compare pw (u_password u) \<longrightarrow>
      login k now b s = (send 401 (Message ''Invalid credentials.''), s))"
  by (simp add: login_def)

theorem login_failure_responses_witness:
  "login ex_env 7000 \<lparr>lb_username = Some ''carol'', lb_password = Some ''wrong''\<rparr> ex_db =
     (send 404 (Message ''User not found.''), ex_db)
 \<and> login ex_env 7000 \<lparr>lb_username = Some ''alice'', lb_password = Some ''wrong''\<rparr> ex_db =
     (send 401 (Message ''Invalid credentials.''), ex_db)"
proof -
  have c: "findOne_username (Some ''carol'') (users ex_db) = None"
    by (simp add: findOne_username_def ex_db_eq ex_alice_doc_def ex_bob_doc_def)
  have a: "findOne_username (Some ''alice'') (users ex_db) = Some ex_alice_doc"
    by (simp add: findOne_username_def ex_db_eq ex_alice_doc_def)
  have w: "\<not> bcrypt_compare ''wrong'' (u_password ex_alice_doc)"
    by (simp add: ex_alice_doc_def)
  show ?thesis
    using login_failure_responses [where b = "\<lparr>lb_username = Some ''carol'', lb_password = Some ''wrong''\<rparr>"
        and s = ex_db and k = ex_env and now = 7000]
      login_failure_responses [where b = "\<lparr>lb_username = Some ''alice'', lb_password = Some ''wrong''\<rparr>"
        and s = ex_db and u = ex_alice_doc and pw = "''wrong''" and k = ex_env and now = 7000]
      c a w
    by simp
qed

text \<open>
  C4. A login that answers 200 sets a cookie whose token carries the id, username and
  displayName of the user found for the username, issued at the second of the login and
  expiring 24 hours (86400 seconds) later, signed with the secret. Until that second,
  verify answers 200 with the same id, username and displayName. Verify answers 401 for
  every token, the issued one or any other, whose expiry has been reached, and for every
  token whose signature is not the secret's signature of its payload: whatever was changed
  in the issued token, payload, signature or both, it is rejected unless the result is
  again signed with the secret. In particular no other token with the issued payload, and
  no other token with the issued signature, is accepted.
\<close>

theorem login_token_roundtrip:
  assumes "login k now b s = (r, s')" and "status r = 200"
  shows "\<exists>u t key. findOne_username (lb_username b) (users s) = Some u
      \<and> set_cookie r = Some \<lparr>c_token = t, c_httpOnly = True, c_maxAge = 86400000\<rparr>
      \<and> tok_payload t = \<lparr>jwt_id = u_id u, jwt_username = u_username u,
            jwt_displayName = u_displayName u,
            iat = now div 1000, exp = now div 1000 + 24 * 60 * 60\<rparr>
      \<and> JWT_SECRET k = Some key \<and> tok_sig t = HS256 key (tok_payload t)
      \<and> (\<forall>now'. now' div 1000 < exp (tok_payload t) \<longrightarrow>
            verify k now' (Some t) =
              send 200 (Identity (u_id u) (u_username u) (u_displayName u)))
      \<and> (\<forall>now' t'. exp (tok_payload t') \<le> now' div 1000 \<longrightarrow>
            verify k now' (Some t') = send 401 (Message ''Invalid token.''))
      \<and> (\<forall>now' t'. tok_sig t' \<noteq> HS256 key (tok_payload t') \<longrightarrow>
            verify k now' (Some t') = send 401 (Message ''Invalid token.''))
      \<and> (\<forall>now' t'. t' \<noteq> t \<and> (tok_payload t' = tok_payload t \<or> tok_sig t' = tok_sig t) \<longrightarrow>
            verify k now' (Some t') = send 401 (Message ''Invalid token.''))"
proof (cases "findOne_username (lb_username b) (users s)")
  case None
  with assms show ?thesis by (auto simp add: login_def send_def)
next
  case u: (Some u)
  show ?thesis
  proof (cases "lb_password b")
    case None
    with u assms show ?thesis by (auto simp add: login_def send_def)
  next
    case pw: (Some pw)
    show ?thesis
    proof (cases "bcrypt_compare pw (u_password u)")
      case False
      with u pw assms show ?thesis by (auto simp add: login_def send_def)
    next
      case True
      show ?thesis
      proof (cases "jwt_sign (u_id u) (u_username u) (u_displayName u) (JWT_SECRET k) 86400 now")
        case None
        with u pw True assms show ?thesis by (auto simp add: login_def send_def)
      next
        case t: (Some t)
        from jwt_sign_sig [OF t] obtain key where
          key: "JWT_SECRET k = Some key" and sig: "tok_sig t = HS256 key (tok_payload t)"
          by blast
        have x: "verify k now' (Some t') = send 401 (Message ''Invalid token.'')"
          if "exp (tok_payload t') \<le> now' div 1000" for now' t'
          using jwt_verify_expired [OF that, of "JWT_SECRET k"] by (simp add: verify_def)
        have b: "verify k now' (Some t') = send 401 (Message ''Invalid token.'')"
          if "tok_sig t' \<noteq> HS256 key (tok_payload t')" for now' t'
          using jwt_verify_bad_signature [OF key that, of now'] by (simp add: verify_def)
        have r: "set_cookie r = Some \<lparr>c_token = t, c_httpOnly = True, c_maxAge = 86400000\<rparr>"
          using u pw True t assms(1) by (auto simp add: login_def)
        have p: "tok_payload t = \<lparr>jwt_id = u_id u, jwt_username = u_username u,
            jwt_displayName = u_displayName u,
            iat = now div 1000, exp = now div 1000 + 24 * 60 * 60\<rparr>"
          using jwt_sign_payload [OF t] by simp
        have v: "verify k now' (Some t) =
             (if now' div 1000 < exp (tok_payload t)
              then send 200 (Identity (u_id u) (u_username u) (u_displayName u))
              else send 401 (Message ''Invalid token.''))" for now'
          using jwt_verify_sign [OF t, of now'] p by (simp add: verify_def)
        have w: "verify k now' (Some t') = send 401 (Message ''Invalid token.'')"
          if "t' \<noteq> t" "tok_payload t' = tok_payload t \<or> tok_sig t' = tok_sig t" for now' t'
          using jwt_verify_tampered [OF t that] by (simp add: verify_def)
        have l: "\<And>now'. now' div 1000 < exp (tok_payload t) \<Longrightarrow>
            verify k now' (Some t) = send 200 (Identity (u_id u) (u_username u) (u_displayName u))"
          by (simp add: v)
        show ?thesis
          using u r p key sig l x b w by blast
      qed
    qed
  qed
qed

theorem login_token_roundtrip_witness:
  "login ex_env 3000 ex_alice_login ex_db =
     (\<lparr>status = 200, body = LoginOk ''Login successful.'' ''Alice'',
       set_cookie = Some \<lparr>c_token = alice_token, c_httpOnly = True, c_maxAge = 86400000\<rparr>\<rparr>,
      ex_db)
 \<and> verify ex_env 86402999 (Some alice_token) = send 200 (Identity 0 ''alice'' ''Alice'')
 \<and> verify ex_env 86403000 (Some alice_token) = send 401 (Message ''Invalid token.'')
 \<and> verify ex_env 4000
      (Some (alice_token\<lparr>tok_payload := (tok_payload alice_token)\<lparr>jwt_id := 1\<rparr>\<rparr>)) =
     send 401 (Message ''Invalid token.'')
 \<and> verify ex_env 4000
      (Some \<lparr>tok_payload = (tok_payload alice_token)\<lparr>jwt_id := 1\<rparr>,
             tok_sig = HS256 ''mallory'' ((tok_payload alice_token)\<lparr>jwt_id := 1\<rparr>)\<rparr>) =
     send 401 (Message ''Invalid token.'')"
proof -
  define r where "r = \<lparr>status = 200, body = LoginOk ''Login successful.'' ''Alice'',
       set_cookie = Some \<lparr>c_token = alice_token, c_httpOnly = True, c_maxAge = 86400000\<rparr>\<rparr>"
  define forged where "forged = \<lparr>tok_payload = (tok_payload alice_token)\<lparr>jwt_id := 1\<rparr>,
       tok_sig = HS256 ''mallory'' ((tok_payload alice_token)\<lparr>jwt_id := 1\<rparr>)\<rparr>"
  have l: "login ex_env 3000 ex_alice_login ex_db = (r, ex_db)"
    by (simp add: login_def ex_alice_login_def findOne_username_def ex_db_eq ex_alice_doc_def
        jwt_sign_def ex_env_def alice_token_def ex_token_def r_def Let_def)
  have st: "status r = 200"
    by (simp add: r_def)
  from login_token_roundtrip [OF l st] obtain u t key where
    u: "findOne_username (lb_username ex_alice_login) (users ex_db) = Some u" and
    c: "set_cookie r = Some \<lparr>c_token = t, c_httpOnly = True, c_maxAge = 86400000\<rparr>" and
    key: "JWT_SECRET ex_env = Some key" and
    v1: "\<forall>now'. now' div 1000 < exp (tok_payload t) \<longrightarrow>
           verify ex_env now' (Some t) =
             send 200 (Identity (u_id u) (u_username u) (u_displayName u))" and
    v2: "\<forall>now' t'. exp (tok_payload t') \<le> now' div 1000 \<longrightarrow>
           verify ex_env now' (Some t') = send 401 (Message ''Invalid token.'')" and
    v3: "\<forall>now' t'. tok_sig t' \<noteq> HS256 key (tok_payload t') \<longrightarrow>
           verify ex_env now' (Some t') = send 401 (Message ''Invalid token.'')" and
    v4: "\<forall>now' t'. t' \<noteq> t \<and> (tok_payload t' = tok_payload t \<or> tok_sig t' = tok_sig t) \<longrightarrow>
           verify ex_env now' (Some t') = send 401 (Message ''Invalid token.'')"
    by blast
  from c have t: "t = alice_token"
    by (simp add: r_def)
  from key have k: "key = ''secret''"
    by (simp add: ex_env_def)
  from u have ua: "u = ex_alice_doc"
    by (simp add: ex_alice_login_def findOne_username_def ex_db_eq ex_alice_doc_def)
  have e: "exp (tok_payload alice_token) = 86403"
    by (simp add: alice_token_def ex_token_def)
  have "verify ex_env 86402999 (Some alice_token) = send 200 (Identity 0 ''alice'' ''Alice'')"
    using v1 [rule_format, of 86402999] t ua e by (simp add: ex_alice_doc_def)
  moreover have "verify ex_env 86403000 (Some alice_token) = send 401 (Message ''Invalid token.'')"
    using v2 [rule_format, of alice_token 86403000] e by simp
  moreover have "verify ex_env 4000
      (Some (alice_token\<lparr>tok_payload := (tok_payload alice_token)\<lparr>jwt_id := 1\<rparr>\<rparr>)) =
     send 401 (Message ''Invalid token.'')"
    using v4 [rule_format, of "alice_token\<lparr>tok_payload := (tok_payload alice_token)\<lparr>jwt_id := 1\<rparr>\<rparr>" 4000] t
    by (simp add: alice_token_def ex_token_def)
  moreover have "verify ex_env 4000 (Some forged) = send 401 (Message ''Invalid token.'')"
    using v3 [rule_format, of forged 4000] k by (simp add: forged_def)
  ultimately show ?thesis
    using l by (simp add: r_def forged_def)
qed

section \<open>Creating and leaving a group\<close>

text \<open>
  C6. An authenticated create request with name and description present, made by a caller
  whose User record is in the store, answers 201 with the new group; the group is added to
  the Group collection with the caller as its only member and its only admin, and its id is
  appended to the caller's groups and to the caller's board_groups.
\<close>

theorem create_group_success:
  assumes "authenticate k now c = Inr d"
      and "cb_name b = Some name" and "name \<noteq> []"
      and "cb_description b = Some description" and "description \<noteq> []"
      and "findById u_id (jwt_id d) (users s) = Some u"
  shows "fst (create_group k now c b s) =
           send 201 (GroupCreated ''Group created successfully.''
              \<lparr>g_id = next_id s, g_name = name, g_description = description,
               g_photoUrl = cb_photoUrl b, g_posts = [],
               g_members = [jwt_id d], g_admins = [jwt_id d]\<rparr>)
       \<and> groups (snd (create_group k now c b s)) = groups s @
            [\<lparr>g_id = next_id s, g_name = name, g_description = description,
              g_photoUrl = cb_photoUrl b, g_posts = [],
              g_members = [jwt_id d], g_admins = [jwt_id d]\<rparr>]
       \<and> findById u_id (jwt_id d) (users (snd (create_group k now c b s))) =
            Some (u\<lparr>u_groups := u_groups u @ [next_id s],
                    u_board_groups := u_board_groups u @ [next_id s]\<rparr>)"
proof -
  define u' where "u' = u\<lparr>u_groups := u_groups u @ [next_id s],
                    u_board_groups := u_board_groups u @ [next_id s]\<rparr>"
  have uid: "u_id u' = jwt_id d"
    using findById_Some_id [OF assms(6)] by (simp add: u'_def)
  have fu: "findById u_id (jwt_id d) (replaceOne u_id u' (users s)) = Some u'"
    using findById_replaceOne_same [of u_id u' "users s" u] assms(6) uid by simp
  have "create_group k now c b s =
           (send 201 (GroupCreated ''Group created successfully.''
              \<lparr>g_id = next_id s, g_name = name, g_description = description,
               g_photoUrl = cb_photoUrl b, g_posts = [],
               g_members = [jwt_id d], g_admins = [jwt_id d]\<rparr>),
            s\<lparr>groups := groups s @
               [\<lparr>g_id = next_id s, g_name = name, g_description = description,
                 g_photoUrl = cb_photoUrl b, g_posts = [],
                 g_members = [jwt_id d], g_admins = [jwt_id d]\<rparr>],
              next_id := Suc (next_id s),
              users := replaceOne u_id u' (users s)\<rparr>)"
    using assms by (simp add: create_group_def Let_def u'_def)
  then show ?thesis
    using fu by (simp add: u'_def)
qed

theorem create_group_success_witness:
  "findById u_id (jwt_id (tok_payload alice_token)) (users ex_db) = Some ex_alice_doc
 \<and> fst (create_group ex_env 7000 (Some alice_token)
          \<lparr>cb_name = Some ''Chess'', cb_description = Some ''Players'', cb_photoUrl = None\<rparr>
          ex_db) =
     send 201 (GroupCreated ''Group created successfully.''
       \<lparr>g_id = 3, g_name = ''Chess'', g_description = ''Players'', g_photoUrl = None,
        g_posts = [], g_members = [0], g_admins = [0]\<rparr>)
 \<and> groups (snd (create_group ex_env 7000 (Some alice_token)
          \<lparr>cb_name = Some ''Chess'', cb_description = Some ''Players'', cb_photoUrl = None\<rparr>
          ex_db)) =
     [ex_book_club_doc,
      \<lparr>g_id = 3, g_name = ''Chess'', g_description = ''Players'', g_photoUrl = None,
       g_posts = [], g_members = [0], g_admins = [0]\<rparr>]
 \<and> findById u_id 0 (users (snd (create_group ex_env 7000 (Some alice_token)
          \<lparr>cb_name = Some ''Chess'', cb_description = Some ''Players'', cb_photoUrl = None\<rparr>
          ex_db))) =
     Some (ex_alice_doc\<lparr>u_groups := [2, 3], u_board_groups := [2, 3]\<rparr>)"
proof -
  let ?b = "\<lparr>cb_name = Some ''Chess'', cb_description = Some ''Players'', cb_photoUrl = None\<rparr>"
  have a: "authenticate ex_env 7000 (Some alice_token) = Inr (tok_payload alice_token)"
    by (simp add: authenticate_alice)
  have n: "cb_name ?b = Some ''Chess''" "''Chess'' \<noteq> []"
    by simp_all
  have d: "cb_description ?b = Some ''Players''" "''Players'' \<noteq> []"
    by simp_all
  have i: "jwt_id (tok_payload alice_token) = 0"
    by (simp add: alice_token_def ex_token_def)
  have u: "findById u_id (jwt_id (tok_payload alice_token)) (users ex_db) = Some ex_alice_doc"
    by (simp add: i findById_def ex_db_eq ex_alice_doc_def)
  have "next_id ex_db = 3" "groups ex_db = [ex_book_club_doc]"
       "u_groups ex_alice_doc = [2]" "u_board_groups ex_alice_doc = [2]"
    by (simp_all add: ex_db_eq ex_alice_doc_def)
  then show ?thesis
    using create_group_success [OF a n d u] u i by simp
qed

lemma leave_member:
  assumes "authenticate k now c = Inr d" and "lv_groupId b = Some groupId" and "groupId \<noteq> []"
      and "castObjectId (ObjectId_other k) groupId = Some gid"
      and "findById g_id gid (groups s) = Some g" and "jwt_id d \<in> set (g_members g)"
      and "findById u_id (jwt_id d) (users s) = Some u"
  shows "leave k now c b s =
           (send 200 (Message ''User left the group successfully.''),
            s\<lparr>groups := replaceOne g_id
                 (g\<lparr>g_members := filter (\<lambda>m. m \<noteq> jwt_id d) (g_members g)\<rparr>) (groups s),
              users := replaceOne u_id
                 (u\<lparr>u_groups := filter (\<lambda>x. toString x \<noteq> groupId) (u_groups u)\<rparr>) (users s)\<rparr>)"
  using assms by (simp add: leave_def Let_def)

lemma leave_200:
  assumes "status (fst (leave k now c b s)) = 200"
  shows "\<exists>d groupId gid g u. authenticate k now c = Inr d \<and> lv_groupId b = Some groupId
         \<and> groupId \<noteq> [] \<and> castObjectId (ObjectId_other k) groupId = Some gid
         \<and> findById g_id gid (groups s) = Some g \<and> jwt_id d \<in> set (g_members g)
         \<and> findById u_id (jwt_id d) (users s) = Some u"
proof (cases "authenticate k now c")
  case (Inl r)
  then have "status r = 401"
    by (auto simp: authenticate_def send_def split: option.splits)
  with Inl assms show ?thesis by (simp add: leave_def)
next
  case d: (Inr d)
  show ?thesis
  proof (cases "lv_groupId b")
    case None
    with d assms show ?thesis by (simp add: leave_def send_def)
  next
    case raw: (Some groupId)
    have ne: "groupId \<noteq> []"
      using d raw assms by (auto simp add: leave_def send_def)
    show ?thesis
    proof (cases "castObjectId (ObjectId_other k) groupId")
      case None
      with d raw assms show ?thesis by (simp add: leave_def send_def split: if_splits)
    next
      case gid: (Some gid)
      show ?thesis
      proof (cases "findById g_id gid (groups s)")
        case None
        with d raw gid ne assms show ?thesis by (simp add: leave_def send_def)
      next
        case g: (Some g)
        show ?thesis
        proof (cases "jwt_id d \<in> set (g_members g)")
          case False
          with d raw gid ne g assms show ?thesis by (simp add: leave_def send_def)
        next
          case m: True
          show ?thesis
          proof (cases "findById u_id (jwt_id d) (users s)")
            case None
            with d raw gid ne g m assms show ?thesis by (simp add: leave_def send_def Let_def)
          next
            case (Some u)
            with d raw ne gid g m show ?thesis by simp
          qed
        qed
      qed
    qed
  qed
qed

text \<open>
  What a Leave that answers 200 does: it was made by a member of an existing group whose
  User record is in the store; the stored group is the old one with the caller filtered out
  of members, and the stored user is the old one with those groups filtered out whose
  string is the string of the body; admins and board_groups are what they were.
\<close>

lemma leave_200_effect:
  assumes "leave k now c b s = (r, s')" and "status r = 200"
  shows "\<exists>d groupId gid g u g' u'.
           authenticate k now c = Inr d \<and> lv_groupId b = Some groupId
         \<and> castObjectId (ObjectId_other k) groupId = Some gid
         \<and> findById g_id gid (groups s) = Some g \<and> jwt_id d \<in> set (g_members g)
         \<and> findById u_id (jwt_id d) (users s) = Some u
         \<and> findById g_id gid (groups s') = Some g'
         \<and> findById u_id (jwt_id d) (users s') = Some u'
         \<and> g' = g\<lparr>g_members := filter (\<lambda>m. m \<noteq> jwt_id d) (g_members g)\<rparr>
         \<and> u' = u\<lparr>u_groups := filter (\<lambda>x. toString x \<noteq> groupId) (u_groups u)\<rparr>
         \<and> jwt_id d \<notin> set (g_members g')
         \<and> g_admins g' = g_admins g \<and> u_board_groups u' = u_board_groups u"
proof -
  from assms have "status (fst (leave k now c b s)) = 200" by simp
  from leave_200 [OF this] obtain d groupId gid g u where
    a: "authenticate k now c = Inr d" and b: "lv_groupId b = Some groupId" and
    ne: "groupId \<noteq> []" and c: "castObjectId (ObjectId_other k) groupId = Some gid" and
    g: "findById g_id gid (groups s) = Some g" and m: "jwt_id d \<in> set (g_members g)" and
    u: "findById u_id (jwt_id d) (users s) = Some u"
    by blast
  define g' where "g' = g\<lparr>g_members := filter (\<lambda>m. m \<noteq> jwt_id d) (g_members g)\<rparr>"
  define u' where "u' = u\<lparr>u_groups := filter (\<lambda>x. toString x \<noteq> groupId) (u_groups u)\<rparr>"
  have s': "s' = s\<lparr>groups := replaceOne g_id g' (groups s), users := replaceOne u_id u' (users s)\<rparr>"
    using leave_member [OF a b ne c g m u] assms(1) by (simp add: g'_def u'_def)
  have gid: "g_id g' = gid" using findById_Some_id [OF g] by (simp add: g'_def)
  have uid: "u_id u' = jwt_id d" using findById_Some_id [OF u] by (simp add: u'_def)
  have fg: "findById g_id gid (groups s') = Some g'"
    using findById_replaceOne_same [of g_id g' "groups s" g] g gid s' by simp
  have fu: "findById u_id (jwt_id d) (users s') = Some u'"
    using findById_replaceOne_same [of u_id u' "users s" u] u uid s' by simp
  have frame: "jwt_id d \<notin> set (g_members g')"
    "g_admins g' = g_admins g" "u_board_groups u' = u_board_groups u"
    by (simp_all add: g'_def u'_def)
  show ?thesis
    using a b c g m u fg fu frame g'_def u'_def by blast
qed

text \<open>In the second sample run Alice leaves the Book Club, id 10, with the string the server
  hands out for it: the group is taken out of her groups.\<close>

lemma leave_lower_case_groupId:
  "leave ex_env 7000 (Some alice_token) \<lparr>lv_groupId = Some ''00000000000000000000000a''\<rparr> ex_db_a =
     (send 200 (Message ''User left the group successfully.''),
      ex_db_a\<lparr>groups := [ex_book_club_doc_a\<lparr>g_members := []\<rparr>],
              users := [ex_alice_doc_a\<lparr>u_groups := []\<rparr>]\<rparr>)"
proof -
  have a: "authenticate ex_env 7000 (Some alice_token) = Inr (tok_payload alice_token)"
    by (simp add: authenticate_alice)
  have i: "jwt_id (tok_payload alice_token) = 0"
    by (simp add: alice_token_def ex_token_def)
  have g: "findById g_id 10 (groups ex_db_a) = Some ex_book_club_doc_a"
    by (simp add: ex_db_a_eq findById_def ex_book_club_doc_a_def)
  have m: "jwt_id (tok_payload alice_token) \<in> set (g_members ex_book_club_doc_a)"
    by (simp add: i ex_book_club_doc_a_def)
  have u: "findById u_id (jwt_id (tok_payload alice_token)) (users ex_db_a) = Some ex_alice_doc_a"
    by (simp add: i ex_db_a_eq findById_def ex_alice_doc_a_def)
  show ?thesis
    using leave_member [OF a _ _ castObjectId_a g m u,
        of "\<lparr>lv_groupId = Some ''00000000000000000000000a''\<rparr>"]
    by (simp add: i ex_db_a_eq ex_book_club_doc_a_def ex_alice_doc_a_def toString_10)
qed

text \<open>
  C7. The claim: after a Leave that answers 200, the caller is no longer in the group's
  members and the group is no longer in the caller's groups, and admins and board_groups are
  what they were. The handler looks the group up by the ObjectId that the groupId of the
  body casts to, but filters the caller's groups by comparing strings. In the second sample
  run Alice, member and creator of the Book Club (id 10, string 00000000000000000000000a),
  leaves it with groupId 00000000000000000000000A: the cast gives id 10, she is taken out of
  members and gets 200, and the Book Club is still in her groups. Admins and board_groups
  are what they were.
\<close>

theorem leave_upper_case_groupId_keeps_group:
  "castObjectId (ObjectId_other ex_env) ''00000000000000000000000A'' = Some 10
 \<and> toString 10 = ''00000000000000000000000a''
 \<and> leave ex_env 7000 (Some alice_token) \<lparr>lv_groupId = Some ''00000000000000000000000A''\<rparr> ex_db_a =
     (send 200 (Message ''User left the group successfully.''),
      ex_db_a\<lparr>groups := [ex_book_club_doc_a\<lparr>g_members := []\<rparr>], users := [ex_alice_doc_a]\<rparr>)
 \<and> u_groups ex_alice_doc_a = [10]
 \<and> g_admins (ex_book_club_doc_a\<lparr>g_members := []\<rparr>) = [0]
 \<and> u_board_groups ex_alice_doc_a = [10]"
proof -
  have a: "authenticate ex_env 7000 (Some alice_token) = Inr (tok_payload alice_token)"
    by (simp add: authenticate_alice)
  have i: "jwt_id (tok_payload alice_token) = 0"
    by (simp add: alice_token_def ex_token_def)
  have g: "findById g_id 10 (groups ex_db_a) = Some ex_book_club_doc_a"
    by (simp add: ex_db_a_eq findById_def ex_book_club_doc_a_def)
  have m: "jwt_id (tok_payload alice_token) \<in> set (g_members ex_book_club_doc_a)"
    by (simp add: i ex_book_club_doc_a_def)
  have u: "findById u_id (jwt_id (tok_payload alice_token)) (users ex_db_a) = Some ex_alice_doc_a"
    by (simp add: i ex_db_a_eq findById_def ex_alice_doc_a_def)
  have "leave ex_env 7000 (Some alice_token) \<lparr>lv_groupId = Some ''00000000000000000000000A''\<rparr> ex_db_a =
     (send 200 (Message ''User left the group successfully.''),
      ex_db_a\<lparr>groups := [ex_book_club_doc_a\<lparr>g_members := []\<rparr>], users := [ex_alice_doc_a]\<rparr>)"
    using leave_member [OF a _ _ castObjectId_A g m u,
        of "\<lparr>lv_groupId = Some ''00000000000000000000000A''\<rparr>"]
    by (simp add: i ex_db_a_eq ex_book_club_doc_a_def ex_alice_doc_a_def toString_10)
  then show ?thesis
    by (simp add: castObjectId_A toString_10 ex_alice_doc_a_def ex_book_club_doc_a_def)
qed

section \<open>Admins and members\<close>

lemma admins_are_members_replaceOne:
  assumes "admins_are_members s" and "\<forall>a \<in> set (g_admins d). a \<in> set (g_members d)"
      and "groups s' = replaceOne g_id d (groups s)"
  shows "admins_are_members s'"
  using assms set_replaceOne [of g_id d "groups s"]
  unfolding admins_are_members_def by fastforce

lemma admins_are_members_groups_eq:
  "admins_are_members s \<Longrightarrow> groups s' = groups s \<Longrightarrow> admins_are_members s'"
  by (simp add: admins_are_members_def)

lemma admins_are_members_mem:
  "admins_are_members s \<Longrightarrow> findById g_id i (groups s) = Some g \<Longrightarrow>
   \<forall>a \<in> set (g_admins g). a \<in> set (g_members g)"
  using findById_Some_mem [of g_id i "groups s" g] by (simp add: admins_are_members_def)

lemma register_groups: "groups (snd (register salt b s)) = groups s"
  by (simp add: register_def Let_def split: option.split)

lemma create_post_admins:
  assumes "admins_are_members s"
  shows "admins_are_members (snd (create_post k now c b s))"
proof (cases "authenticate k now c")
  case (Inl r)
  with assms show ?thesis by (simp add: create_post_def)
next
  case d: (Inr d)
  show ?thesis
  proof (cases "findById g_id (case pb_group b of Some gid \<Rightarrow> gid | None \<Rightarrow> 0) (groups s)")
    case None
    with d assms show ?thesis
      by (auto simp add: create_post_def split: option.split)
  next
    case (Some g)
    let ?g' = "g\<lparr>g_posts := g_posts g @ [next_id s]\<rparr>"
    have g': "\<forall>a \<in> set (g_admins ?g'). a \<in> set (g_members ?g')"
      using admins_are_members_mem [OF assms Some] by simp
    have "groups (snd (create_post k now c b s)) = groups s \<or>
          groups (snd (create_post k now c b s)) = replaceOne g_id ?g' (groups s)"
      using d Some by (auto simp add: create_post_def Let_def split: option.split sum.split)
    then show ?thesis
      using admins_are_members_groups_eq [OF assms] admins_are_members_replaceOne [OF assms g']
      by blast
  qed
qed

lemma join_admins:
  assumes "admins_are_members s"
  shows "admins_are_members (snd (join k now c b s))"
proof (cases "authenticate k now c")
  case (Inl r)
  with assms show ?thesis by (simp add: join_def)
next
  case d: (Inr d)
  show ?thesis
  proof (cases "jb_groupId b")
    case None
    with d assms show ?thesis by (simp add: join_def)
  next
    case gid: (Some groupId)
    show ?thesis
    proof (cases "findById g_id groupId (groups s)")
      case None
      with d gid assms show ?thesis by (simp add: join_def)
    next
      case (Some g)
      let ?g' = "g\<lparr>g_members := g_members g @ [jwt_id d]\<rparr>"
      have g': "\<forall>a \<in> set (g_admins ?g'). a \<in> set (g_members ?g')"
        using admins_are_members_mem [OF assms Some] by simp
      have "groups (snd (join k now c b s)) = groups s \<or>
            groups (snd (join k now c b s)) = replaceOne g_id ?g' (groups s)"
        using d gid Some by (simp add: join_def Let_def split: option.split)
      then show ?thesis
        using admins_are_members_groups_eq [OF assms] admins_are_members_replaceOne [OF assms g']
        by blast
    qed
  qed
qed

lemma leave_admins:
  assumes "admins_are_members s"
      and "\<not> admin_leaves k h s" and "h_request h = Leave b"
  shows "admins_are_members (snd (leave k (h_now h) (h_authToken h) b s))"
proof (cases "authenticate k (h_now h) (h_authToken h)")
  case (Inl r)
  with assms show ?thesis by (simp add: leave_def)
next
  case d: (Inr d)
  show ?thesis
  proof (cases "lv_groupId b")
    case None
    with d assms show ?thesis by (simp add: leave_def)
  next
    case raw: (Some groupId)
    show ?thesis
    proof (cases "groupId \<noteq> [] \<and> castObjectId (ObjectId_other k) groupId \<noteq> None")
      case False
      with d raw assms show ?thesis by (auto simp add: leave_def)
    next
      case True
      then obtain gid where ne: "groupId \<noteq> []"
        and gid: "castObjectId (ObjectId_other k) groupId = Some gid"
        by auto
      show ?thesis
      proof (cases "findById g_id gid (groups s)")
        case None
        with d raw ne gid assms show ?thesis by (simp add: leave_def)
      next
        case g: (Some g)
        show ?thesis
        proof (cases "jwt_id d \<in> set (g_members g)")
          case False
          with d raw ne gid g assms show ?thesis by (simp add: leave_def)
        next
          case True
          with assms(2,3) d raw ne gid g have na: "jwt_id d \<notin> set (g_admins g)"
            by (simp add: admin_leaves_def)
          let ?g' = "g\<lparr>g_members := filter (\<lambda>memberId. memberId \<noteq> jwt_id d) (g_members g)\<rparr>"
          have g': "\<forall>a \<in> set (g_admins ?g'). a \<in> set (g_members ?g')"
            using admins_are_members_mem [OF assms(1) g] na by auto
          have "groups (snd (leave k (h_now h) (h_authToken h) b s)) =
                  replaceOne g_id ?g' (groups s)"
            using d raw gid ne g True by (simp add: leave_def Let_def split: option.split)
          then show ?thesis
            using admins_are_members_replaceOne [OF assms(1) g'] by blast
        qed
      qed
    qed
  qed
qed

lemma create_group_admins:
  assumes "admins_are_members s"
  shows "admins_are_members (snd (create_group k now c b s))"
proof (cases "authenticate k now c")
  case (Inl r)
  with assms show ?thesis by (simp add: create_group_def)
next
  case d: (Inr d)
  have "groups (snd (create_group k now c b s)) = groups s \<or>
        (\<exists>g. g_admins g = [jwt_id d] \<and> g_members g = [jwt_id d] \<and>
             groups (snd (create_group k now c b s)) = groups s @ [g])"
    using d by (simp add: create_group_def Let_def split: option.split)
  then show ?thesis
    using assms by (auto simp add: admins_are_members_def)
qed

lemma handle_admins:
  assumes "admins_are_members s" and "\<not> admin_leaves k h s"
  shows "admins_are_members (snd (handle k h s))"
proof (cases "h_request h")
  case (Register salt b)
  then show ?thesis
    using admins_are_members_groups_eq [OF assms(1) register_groups]
    by (simp add: handle_def)
next
  case (Login b)
  then show ?thesis using assms(1) by (simp add: handle_def login_state)
next
  case Verify
  then show ?thesis using assms(1) by (simp add: handle_def)
next
  case (CreatePost b)
  then show ?thesis using create_post_admins [OF assms(1)] by (simp add: handle_def)
next
  case (Leave b)
  then show ?thesis
    using leave_admins [OF assms Leave] by (simp add: handle_def)
next
  case (Join b)
  then show ?thesis using join_admins [OF assms(1)] by (simp add: handle_def)
next
  case (CreateGroup b)
  then show ?thesis using create_group_admins [OF assms(1)] by (simp add: handle_def)
qed

lemma run_admins:
  "admins_are_members s \<Longrightarrow> no_admin_leaves k hs s \<Longrightarrow> admins_are_members (run k hs s)"
proof (induction hs arbitrary: s)
  case Nil
  then show ?case by simp
next
  case (Cons h hs)
  then show ?case using handle_admins [of s k h] by simp
qed

lemma alice_token_id: "jwt_id (tok_payload alice_token) = 0"
  by (simp add: alice_token_def ex_token_def)

lemma bob_token_id: "jwt_id (tok_payload bob_token) = 1"
  by (simp add: bob_token_def ex_token_def)

lemma no_admin_leaves_no_Leave:
  "\<forall>h \<in> set hs. \<forall>b. h_request h \<noteq> Leave b \<Longrightarrow> no_admin_leaves k hs s"
  by (induction hs arbitrary: s) (auto simp add: admin_leaves_def split: request.split)

text \<open>
  C1, as stated: in every state reached from the empty store, every admin of a group is one
  of its members. In the sample run Alice registers, creates the Book Club (she is its only
  admin) and Bob joins; when Alice then leaves, the handler takes her out of members and
  does not touch admins.
\<close>

theorem admin_leaves_breaks_admins_are_members:
  "\<not> admins_are_members (run ex_env (ex_requests @ [ex_alice_leaves]) db_empty)"
proof -
  have "run ex_env (ex_requests @ [ex_alice_leaves]) db_empty =
          snd (handle ex_env ex_alice_leaves ex_db)"
    by (simp add: run_append ex_db_def)
  also have "groups \<dots> = [ex_book_club_doc\<lparr>g_members := [1]\<rparr>]"
    by (simp add: handle_def ex_alice_leaves_def leave_def authenticate_alice ex_db_eq
        findById_def ex_book_club_doc_def ex_alice_doc_def alice_token_id castObjectId_2
        Let_def)
  finally show ?thesis
    by (simp add: admins_are_members_def ex_book_club_doc_def)
qed

text \<open>
  C1, amended. In every state reached from the empty store by a sequence of requests
  (register, login, verify, create post, create group, join, leave) in which no Leave is
  made by an admin and member of its target group, every admin of a group is one of its
  members.
\<close>

theorem admins_are_members_unless_admin_leaves:
  "no_admin_leaves k hs db_empty \<Longrightarrow> admins_are_members (run k hs db_empty)"
  by (rule run_admins) (simp_all add: admins_are_members_def db_empty_def)

theorem admins_are_members_unless_admin_leaves_witness:
  "no_admin_leaves ex_env (ex_requests @ [ex_bob_leaves]) db_empty
 \<and> admins_are_members (run ex_env (ex_requests @ [ex_bob_leaves]) db_empty)
 \<and> groups (run ex_env (ex_requests @ [ex_bob_leaves]) db_empty) =
     [ex_book_club_doc\<lparr>g_members := [0]\<rparr>]"
proof -
  have 1: "no_admin_leaves ex_env ex_requests db_empty"
    by (rule no_admin_leaves_no_Leave) (simp add: ex_requests_def)
  have 2: "\<not> admin_leaves ex_env ex_bob_leaves ex_db"
    by (simp add: admin_leaves_def ex_bob_leaves_def authenticate_bob ex_db_eq findById_def
        ex_book_club_doc_def bob_token_id castObjectId_2)
  have n: "no_admin_leaves ex_env (ex_requests @ [ex_bob_leaves]) db_empty"
    using 1 2 by (simp add: no_admin_leaves_append ex_db_def)
  have "run ex_env (ex_requests @ [ex_bob_leaves]) db_empty =
          snd (handle ex_env ex_bob_leaves ex_db)"
    by (simp add: run_append ex_db_def)
  also have "groups \<dots> = [ex_book_club_doc\<lparr>g_members := [0]\<rparr>]"
    by (simp add: handle_def ex_bob_leaves_def leave_def authenticate_bob ex_db_eq
        findById_def ex_book_club_doc_def ex_alice_doc_def ex_bob_doc_def bob_token_id
        castObjectId_2 Let_def)
  finally show ?thesis
    using n admins_are_members_unless_admin_leaves [OF n] by simp
qed

section \<open>Registration\<close>

lemma users_replaceOne_usernames:
  assumes "findById u_id i xs = Some u" and "u_id u' = u_id u" and "u_username u' = u_username u"
  shows "map u_username (replaceOne u_id u' xs) = map u_username xs"
  using map_replaceOne [of u_id u' xs u u_username] findById_Some_id [OF assms(1)] assms
  by simp

lemma register_usernames:
  "map u_username (users (snd (register salt b s))) = map u_username (users s) \<or>
   (\<exists>n. n \<notin> set (map u_username (users s)) \<and>
        map u_username (users (snd (register salt b s))) = map u_username (users s) @ [n])"
  by (simp add: register_def Let_def split: option.split)

lemma create_post_users: "users (snd (create_post k now c b s)) = users s"
  by (simp add: create_post_def Let_def split: sum.split option.split)

lemma leave_usernames:
  "map u_username (users (snd (leave k now c b s))) = map u_username (users s)"
  by (auto simp add: leave_def Let_def split: sum.split option.split
      intro: users_replaceOne_usernames)

lemma join_usernames:
  "map u_username (users (snd (join k now c b s))) = map u_username (users s)"
  by (auto simp add: join_def Let_def split: sum.split option.split
      intro: users_replaceOne_usernames)

lemma create_group_usernames:
  "map u_username (users (snd (create_group k now c b s))) = map u_username (users s)"
  by (auto simp add: create_group_def Let_def split: sum.split option.split
      intro: users_replaceOne_usernames)

lemma handle_usernames:
  "map u_username (users (snd (handle k h s))) = map u_username (users s) \<or>
   (\<exists>n. n \<notin> set (map u_username (users s)) \<and>
        map u_username (users (snd (handle k h s))) = map u_username (users s) @ [n])"
proof (cases "h_request h")
  case (Register salt b)
  then show ?thesis using register_usernames [of salt b s] by (simp add: handle_def)
next
  case (Login b)
  then show ?thesis by (simp add: handle_def login_state)
next
  case Verify
  then show ?thesis by (simp add: handle_def)
next
  case (CreatePost b)
  then show ?thesis by (simp add: handle_def create_post_users)
next
  case (Leave b)
  then show ?thesis by (simp add: handle_def leave_usernames)
next
  case (Join b)
  then show ?thesis by (simp add: handle_def join_usernames)
next
  case (CreateGroup b)
  then show ?thesis by (simp add: handle_def create_group_usernames)
qed

lemma run_usernames_distinct:
  "distinct (map u_username (users s)) \<Longrightarrow> distinct (map u_username (users (run k hs s)))"
proof (induction hs arbitrary: s)
  case Nil
  then show ?case by simp
next
  case (Cons h hs)
  from handle_usernames [of k h s] Cons.prems
  have "distinct (map u_username (users (snd (handle k h s))))"
    by auto
  then show ?case using Cons.IH by simp
qed

lemma run_usernames_mono:
  "n \<in> set (map u_username (users s)) \<Longrightarrow> n \<in> set (map u_username (users (run k hs s)))"
proof (induction hs arbitrary: s)
  case Nil
  then show ?case by simp
next
  case (Cons h hs)
  from handle_usernames [of k h s] Cons.prems
  have "n \<in> set (map u_username (users (snd (handle k h s))))"
    by (auto simp del: set_map)
  then show ?case using Cons.IH by simp
qed

lemma count_distinct:
  "distinct (map f xs) \<Longrightarrow> n \<in> set (map f xs) \<Longrightarrow> length (filter (\<lambda>x. f x = n) xs) = 1"
proof (induction xs)
  case Nil
  then show ?case by simp
next
  case (Cons x xs)
  show ?case
  proof (cases "f x = n")
    case True
    with Cons.prems have "\<forall>y \<in> set xs. f y \<noteq> n" by (auto simp add: image_iff)
    then have "filter (\<lambda>x. f x = n) xs = []" by (simp add: filter_empty_conv)
    with True show ?thesis by simp
  next
    case False
    with Cons show ?thesis by auto
  qed
qed

lemma register_present:
  assumes "rb_username b = Some n" and "n \<noteq> []"
      and "truthy (rb_displayName b)" and "truthy (rb_password b)"
  shows "n \<in> set (map u_username (users (snd (register salt b s))))"
  using assms by (cases "rb_displayName b"; cases "rb_password b") (simp_all add: register_def Let_def)

lemma register_duplicate:
  assumes "rb_username b = Some n" and "n \<noteq> []"
      and "truthy (rb_displayName b)" and "truthy (rb_password b)"
      and "n \<in> set (map u_username (users s))"
  shows "fst (register salt b s) = send 400 (Message ''Username already exists.'')"
    and "users (snd (register salt b s)) = users s"
  using assms by (cases "rb_displayName b"; cases "rb_password b"; simp add: register_def Let_def)+

text \<open>
  C9. In a run from the empty store, take a registration with all fields present and a
  later registration with the same username, again with all fields present (any requests
  may come before the first and between the two; display names and passwords may differ).
  The later one answers 400 "Username already exists.", and afterwards exactly one stored
  user has that username.
\<close>

theorem register_twice:
  assumes "rb_username b1 = Some n" and "rb_username b2 = Some n" and "n \<noteq> []"
      and "truthy (rb_displayName b1)" and "truthy (rb_password b1)"
      and "truthy (rb_displayName b2)" and "truthy (rb_password b2)"
  shows "let s1 = snd (register salt1 b1 (run k hs db_empty));
             res = register salt2 b2 (run k hs' s1)
         in fst res = send 400 (Message ''Username already exists.'')
          \<and> count_username n (snd res) = 1"
proof -
  define s0 where "s0 = run k hs db_empty"
  define s1 where "s1 = snd (register salt1 b1 s0)"
  define s2 where "s2 = run k hs' s1"
  have d0: "distinct (map u_username (users s0))"
    unfolding s0_def by (rule run_usernames_distinct) (simp add: db_empty_def)
  have d1: "distinct (map u_username (users s1))"
    using register_usernames [of salt1 b1 s0] d0 unfolding s1_def by auto
  have d2: "distinct (map u_username (users s2))"
    unfolding s2_def using d1 by (rule run_usernames_distinct)
  have "n \<in> set (map u_username (users s1))"
    unfolding s1_def using assms(1,3,4,5) by (rule register_present)
  then have m2: "n \<in> set (map u_username (users s2))"
    unfolding s2_def by (rule run_usernames_mono)
  have r: "fst (register salt2 b2 s2) = send 400 (Message ''Username already exists.'')"
    and u: "users (snd (register salt2 b2 s2)) = users s2"
    using register_duplicate [OF assms(2,3,6,7) m2] by simp_all
  have "count_username n (snd (register salt2 b2 s2)) = 1"
    using count_distinct [OF d2 m2] u by (simp add: count_username_def)
  with r show ?thesis
    by (simp add: s0_def s1_def s2_def)
qed

theorem register_twice_witness:
  "fst (register 13 (ex_alice\<lparr>rb_password := Some ''other''\<rparr>) ex_db) =
     send 400 (Message ''Username already exists.'')
 \<and> count_username ''alice'' (snd (register 13 (ex_alice\<lparr>rb_password := Some ''other''\<rparr>) ex_db)) = 1"
proof -
  have e: "run ex_env (tl ex_requests) (snd (register 11 ex_alice (run ex_env [] db_empty))) =
           ex_db"
    by (simp add: ex_db_def ex_requests_def handle_def)
  show ?thesis
    using register_twice [where ?b1.0 = ex_alice and ?b2.0 = "ex_alice\<lparr>rb_password := Some ''other''\<rparr>"
        and n = "''alice''" and ?salt1.0 = 11 and ?salt2.0 = 13 and k = ex_env and hs = "[]"
        and hs' = "tl ex_requests"] e
    by (simp add: ex_alice_def Let_def)
qed

section \<open>Tokens issued by login name stored users\<close>

text \<open>
  No route deletes a user or changes a user's id, and login signs the id of a stored user.
  So a token issued by login, whenever it later passes authenticate, names a user that is
  still in the store: the caller's User record that create, join and leave load exists.
\<close>

lemma findById_iff: "(\<exists>x. findById idf i xs = Some x) \<longleftrightarrow> i \<in> set (map idf xs)"
  by (induction xs) (auto simp: findById_def)

lemma map_id_replaceOne: "map idf (replaceOne idf d xs) = map idf xs"
  by (induction xs) auto

lemma register_user_ids:
  "set (map u_id (users s)) \<subseteq> set (map u_id (users (snd (register salt b s))))"
  by (auto simp add: register_def Let_def split: option.split)

lemma leave_user_ids: "map u_id (users (snd (leave k now c b s))) = map u_id (users s)"
  by (simp add: leave_def Let_def map_id_replaceOne split: sum.split option.split)

lemma join_user_ids: "map u_id (users (snd (join k now c b s))) = map u_id (users s)"
  by (simp add: join_def Let_def map_id_replaceOne split: sum.split option.split)

lemma create_group_user_ids:
  "map u_id (users (snd (create_group k now c b s))) = map u_id (users s)"
  by (simp add: create_group_def Let_def map_id_replaceOne split: sum.split option.split)

lemma handle_user_ids:
  "set (map u_id (users s)) \<subseteq> set (map u_id (users (snd (handle k h s))))"
proof (cases "h_request h")
  case (Register salt b)
  then show ?thesis using register_user_ids [of s salt b] by (simp add: handle_def)
next
  case (Login b)
  then show ?thesis by (simp add: handle_def login_state)
next
  case Verify
  then show ?thesis by (simp add: handle_def)
next
  case (CreatePost b)
  then show ?thesis by (simp add: handle_def create_post_users)
next
  case (Leave b)
  then show ?thesis by (simp add: handle_def leave_user_ids del: set_map)
next
  case (Join b)
  then show ?thesis by (simp add: handle_def join_user_ids del: set_map)
next
  case (CreateGroup b)
  then show ?thesis by (simp add: handle_def create_group_user_ids del: set_map)
qed

lemma run_user_ids:
  "set (map u_id (users s)) \<subseteq> set (map u_id (users (run k hs s)))"
proof (induction hs arbitrary: s)
  case Nil
  then show ?case by simp
next
  case (Cons h hs)
  have "set (map u_id (users s)) \<subseteq> set (map u_id (users (snd (handle k h s))))"
    by (rule handle_user_ids)
  also have "\<dots> \<subseteq> set (map u_id (users (run k hs (snd (handle k h s)))))"
    by (rule Cons.IH)
  finally show ?case by simp
qed

lemma login_cookie_user:
  assumes "set_cookie (fst (login k now b s)) = Some ck"
  shows "\<exists>u \<in> set (users s). jwt_id (tok_payload (c_token ck)) = u_id u"
proof (cases "findOne_username (lb_username b) (users s)")
  case None
  with assms show ?thesis by (simp add: login_def send_def)
next
  case u: (Some u)
  then have mem: "u \<in> set (users s)"
    by (auto simp add: findOne_username_def find_Some_iff)
  show ?thesis
  proof (cases "lb_password b")
    case None
    with u assms show ?thesis by (simp add: login_def send_def)
  next
    case pw: (Some pw)
    show ?thesis
    proof (cases "jwt_sign (u_id u) (u_username u) (u_displayName u) (JWT_SECRET k) 86400 now")
      case None
      with u pw assms show ?thesis by (auto simp add: login_def send_def split: if_splits)
    next
      case (Some t)
      with u pw assms have "bcrypt_compare pw (u_password u) \<and> c_token ck = t"
        by (auto simp add: login_def send_def split: if_splits)
      with jwt_sign_payload [OF Some] mem show ?thesis by auto
    qed
  qed
qed

lemma issued_token_names_stored_user:
  assumes "set_cookie (fst (login k now b s)) = Some ck"
      and "authenticate k now' (Some (c_token ck)) = Inr d"
  shows "\<exists>u. findById u_id (jwt_id d) (users (run k hs s)) = Some u"
proof -
  from assms(2) have "d = tok_payload (c_token ck)"
    by (auto simp add: authenticate_def jwt_verify_def split: option.splits if_splits)
  with login_cookie_user [OF assms(1)] have "jwt_id d \<in> set (map u_id (users s))"
    by auto
  with run_user_ids [of s k hs] have "jwt_id d \<in> set (map u_id (users (run k hs s)))"
    by blast
  then show ?thesis
    by (simp only: findById_iff)
qed

end
